theory Spec2Isabelle
  imports Main
begin

section \<open>Backend (main.py): responses, store and index\<close>

text \<open>
  The backend answers with JSON bodies. A handler that returns a Python dict is served by
  the framework with status 200; \<open>JSONResponse\<close> carries its own status code. What the
  handlers print to the console is not part of the model.
\<close>

datatype json = JStr string | JArr "json list" | JObj "(string \<times> json) list"

record response =
  status_code :: nat
  content :: json

definition ok :: "(string \<times> json) list \<Rightarrow> response" where
  "ok d = \<lparr>status_code = 200, content = JObj d\<rparr>"

definition JSONResponse :: "(string \<times> json) list \<Rightarrow> nat \<Rightarrow> response" where
  "JSONResponse d code = \<lparr>status_code = code, content = JObj d\<rparr>"

definition field :: "string \<Rightarrow> response \<Rightarrow> json option" where
  "field k r = (case content r of JObj d \<Rightarrow> map_of d k | _ \<Rightarrow> None)"

type_synonym path = string
type_synonym bytes = "char list"

datatype document = Document (page_content: string)

text \<open>
  The state the handlers act on: the files on disk (the document store lives there) and
  the contents of the vector index.
\<close>

record backend =
  files :: "path \<rightharpoonup> bytes"
  vector_db :: "document list"

record upload =
  filename :: string
  data :: bytes

text \<open>
  How \<open>open(file_path, "wb")\<close> followed by \<open>buffer.write(await file.read())\<close> ends: the bytes
  are written, or \<open>open\<close> raises and nothing is touched, or a later step raises after the
  file was created or truncated and holds only the first \<open>k\<close> bytes.
\<close>

datatype write_result = Written | OpenRaises string | WriteRaises string nat

definition write_file :: "write_result \<Rightarrow> (path \<rightharpoonup> bytes) \<Rightarrow> path \<Rightarrow> bytes
    \<Rightarrow> string option \<times> (path \<rightharpoonup> bytes)" where
  "write_file wr fs p d =
     (case wr of
        Written \<Rightarrow> (None, fs(p \<mapsto> d))
      | OpenRaises e \<Rightarrow> (Some e, fs)
      | WriteRaises e k \<Rightarrow> (Some e, fs(p \<mapsto> take k d)))"

text \<open>
  Everything main.py calls and does not define: the operating system and the libraries
  for loading, splitting, indexing and answering. A call returns a value (\<open>Inr\<close>) or
  raises an exception, of which the handlers only use \<open>str(e)\<close> (\<open>Inl\<close>).
  \<open>add_documents\<close> returns the index as it has left it, also when it raises.
\<close>

record world =
  path_join :: "path \<Rightarrow> string \<Rightarrow> path"
  os_write :: "path \<Rightarrow> bytes \<Rightarrow> write_result"
  pdf_load :: "(path \<rightharpoonup> bytes) \<Rightarrow> path \<Rightarrow> string + document list"
  text_load :: "(path \<rightharpoonup> bytes) \<Rightarrow> path \<Rightarrow> string + document list"
  split_documents :: "nat \<Rightarrow> nat \<Rightarrow> document list \<Rightarrow> string + document list"
  add_documents :: "document list \<Rightarrow> document list \<Rightarrow> string option \<times> document list"
  persist :: "document list \<Rightarrow> string option"
  qa_invoke :: "document list \<Rightarrow> string \<Rightarrow> string + (string \<times> string) list"
  similarity_search :: "document list \<Rightarrow> string \<Rightarrow> string + document list"
  get_relevant_documents :: "document list \<Rightarrow> string \<Rightarrow> string + document list"
  qa_run :: "document list \<Rightarrow> string \<Rightarrow> string + string"

definition UPLOAD_FOLDER :: path where
  "UPLOAD_FOLDER = ''./document_store''"

definition endswith :: "string \<Rightarrow> string \<Rightarrow> bool" where
  "endswith s suf \<longleftrightarrow> length suf \<le> length s \<and> drop (length s - length suf) s = suf"

datatype loader = PyPDFLoader path | TextLoader path

definition loader_load :: "world \<Rightarrow> (path \<rightharpoonup> bytes) \<Rightarrow> loader \<Rightarrow> string + document list" where
  "loader_load w fs l =
     (case l of PyPDFLoader p \<Rightarrow> pdf_load w fs p | TextLoader p \<Rightarrow> text_load w fs p)"

subsection \<open>POST /upload/\<close>

text \<open>
  Lines 112 to 120 of \<open>upload_file\<close>: load, split with chunk size 500 and overlap 50, add
  to the index, persist, answer. \<open>Inl e\<close> is an exception leaving the \<open>try\<close> block.
\<close>

definition index_documents :: "world \<Rightarrow> upload \<Rightarrow> loader \<Rightarrow> backend
    \<Rightarrow> (string + response) \<times> backend" where
  "index_documents w file l b =
     (case loader_load w (files b) l of
        Inl e \<Rightarrow> (Inl e, b)
      | Inr documents \<Rightarrow>
          (case split_documents w 500 50 documents of
             Inl e \<Rightarrow> (Inl e, b)
           | Inr chunks \<Rightarrow>
               (case add_documents w (vector_db b) chunks of
                  (Some e, db) \<Rightarrow> (Inl e, b\<lparr>vector_db := db\<rparr>)
                | (None, db) \<Rightarrow>
                    (case persist w db of
                       Some e \<Rightarrow> (Inl e, b\<lparr>vector_db := db\<rparr>)
                     | None \<Rightarrow>
                         (Inr (ok [(''message'', JStr ''File uploaded and indexed successfully!''),
                                   (''filename'', JStr (filename file))]),
                          b\<lparr>vector_db := db\<rparr>)))))"

text \<open>The body of the \<open>try\<close> block of \<open>upload_file\<close>: the file is saved first, then the
  extension selects the loader.\<close>

definition upload_body :: "world \<Rightarrow> upload \<Rightarrow> backend \<Rightarrow> (string + response) \<times> backend" where
  "upload_body w file b =
     (let file_path = path_join w UPLOAD_FOLDER (filename file) in
      case write_file (os_write w file_path (data file)) (files b) file_path (data file) of
        (Some e, fs) \<Rightarrow> (Inl e, b\<lparr>files := fs\<rparr>)
      | (None, fs) \<Rightarrow>
          if endswith (filename file) ''.pdf''
          then index_documents w file (PyPDFLoader file_path) (b\<lparr>files := fs\<rparr>)
          else if endswith (filename file) ''.txt''
          then index_documents w file (TextLoader file_path) (b\<lparr>files := fs\<rparr>)
          else (Inr (JSONResponse
                  [(''error'', JStr ''Unsupported file format. Upload a .pdf or .txt file.'')] 400),
                b\<lparr>files := fs\<rparr>))"

text \<open>\<open>upload_file\<close>: the \<open>try\<close> block with its \<open>except Exception\<close> clause.\<close>

definition upload_file :: "world \<Rightarrow> upload \<Rightarrow> backend \<Rightarrow> response \<times> backend" where
  "upload_file w file b =
     (case upload_body w file b of
        (Inr r, b') \<Rightarrow> (r, b')
      | (Inl e, b') \<Rightarrow>
          (JSONResponse [(''error'', JStr (''File upload failed: '' @ e))] 500, b'))"

subsection \<open>GET /search/\<close>

definition search_failed :: "string \<Rightarrow> response" where
  "search_failed e =
     JSONResponse [(''error'', JStr (''Error processing your request: '' @ e))] 500"

definition chunks_of :: "document list \<Rightarrow> json" where
  "chunks_of docs = JArr (map (\<lambda>doc. JStr (page_content doc)) docs)"

text \<open>\<open>result['result']\<close> raises \<open>KeyError\<close> on a dict without that key; its \<open>str\<close> is the
  key in quotes.\<close>

definition getitem :: "(string \<times> string) list \<Rightarrow> string \<Rightarrow> string + string" where
  "getitem d k =
     (case map_of d k of
        None \<Rightarrow> Inl ([CHR 0x27] @ k @ [CHR 0x27])
      | Some v \<Rightarrow> Inr v)"

text \<open>The first definition of \<open>search_query\<close> (lines 62 to 80).\<close>

definition search_body_first :: "world \<Rightarrow> backend \<Rightarrow> string \<Rightarrow> string + response" where
  "search_body_first w b query =
     (case qa_invoke w (vector_db b) query of
        Inl e \<Rightarrow> Inl e
      | Inr result \<Rightarrow>
          (case similarity_search w (vector_db b) query of
             Inl e \<Rightarrow> Inl e
           | Inr retrieved_docs \<Rightarrow>
               (case getitem result ''result'' of
                  Inl e \<Rightarrow> Inl e
                | Inr answer \<Rightarrow>
                    Inr (ok [(''retrieved_chunks'', chunks_of retrieved_docs),
                             (''answer'', JStr answer)]))))"

definition search_query_first :: "world \<Rightarrow> backend \<Rightarrow> string \<Rightarrow> response" where
  "search_query_first w b query =
     (case search_body_first w b query of Inr r \<Rightarrow> r | Inl e \<Rightarrow> search_failed e)"

text \<open>The second definition of \<open>search_query\<close> (lines 129 to 144).\<close>

definition search_body_second :: "world \<Rightarrow> backend \<Rightarrow> string \<Rightarrow> string + response" where
  "search_body_second w b query =
     (case get_relevant_documents w (vector_db b) query of
        Inl e \<Rightarrow> Inl e
      | Inr retrieved_docs \<Rightarrow>
          (case qa_run w (vector_db b) query of
             Inl e \<Rightarrow> Inl e
           | Inr result \<Rightarrow>
               Inr (ok [(''retrieved_chunks'', chunks_of retrieved_docs),
                        (''answer'', JStr result)])))"

definition search_query_second :: "world \<Rightarrow> backend \<Rightarrow> string \<Rightarrow> response" where
  "search_query_second w b query =
     (case search_body_second w b query of Inr r \<Rightarrow> r | Inl e \<Rightarrow> search_failed e)"

section \<open>Client (app.py): session state, users and chats\<close>

text \<open>
  Python dicts keep insertion order: \<open>d[k] = v\<close> replaces the value of a key that is
  present and appends a new key otherwise; \<open>k in d\<close> and \<open>d[k]\<close> are \<open>map_of\<close>.
\<close>

fun dict_set :: "'k \<Rightarrow> 'v \<Rightarrow> ('k \<times> 'v) list \<Rightarrow> ('k \<times> 'v) list" where
  "dict_set k v [] = [(k, v)]"
| "dict_set k v ((k', v') # d) =
     (if k' = k then (k, v) # d else (k', v') # dict_set k v d)"

text \<open>\<open>str(n)\<close> of a natural number, as the f-string of the session name renders it.\<close>

definition digit_char :: "nat \<Rightarrow> char" where
  "digit_char d = ''0123456789'' ! d"

fun str_nat :: "nat \<Rightarrow> string" where
  "str_nat n =
     (if n < 10 then [digit_char n] else str_nat (n div 10) @ [digit_char (n mod 10)])"

declare str_nat.simps [simp del]

type_synonym message = "string \<times> string"
type_synonym addr = nat

text \<open>
  \<open>st.session_state\<close> with its five keys. The message lists are Python list objects:
  \<open>messages\<close> and the values of \<open>chat_sessions\<close> are references into \<open>heap\<close>, so that
  \<open>append\<close> (in place) and \<open>list(...)\<close> (a new object) are told apart. \<open>users_json\<close> is the
  file users.json, \<open>None\<close> while it does not exist.
\<close>

record client =
  logged_in :: bool
  username :: string
  messages :: addr
  chat_sessions :: "(string \<times> addr) list"
  user_store :: "(string \<times> string) list"
  heap :: "addr \<Rightarrow> message list"
  next_addr :: addr
  users_json :: "(string \<times> string) list option"

text \<open>What a handler shows in the page; the pictograph that opens each text in the
  source is left out of the strings.\<close>

datatype notice = Success string | Error string | Warning string

definition new_list :: "message list \<Rightarrow> client \<Rightarrow> addr \<times> client" where
  "new_list xs st =
     (next_addr st,
      st\<lparr>heap := (heap st)(next_addr st := xs), next_addr := Suc (next_addr st)\<rparr>)"

text \<open>
  \<open>load_users\<close> reads users.json and answers the empty dict when the file is missing;
  \<open>save_users\<close> replaces the content of the file by the dict it is given. The file is
  modelled by the dict it holds, and writing it is taken to succeed.
\<close>

definition load_users :: "(string \<times> string) list option \<Rightarrow> (string \<times> string) list" where
  "load_users file = (case file of None \<Rightarrow> [] | Some users \<Rightarrow> users)"

definition save_users :: "(string \<times> string) list \<Rightarrow> client \<Rightarrow> client" where
  "save_users users st = st\<lparr>users_json := Some users\<rparr>"

text \<open>Lines 27 to 36: the session state of a fresh browser session.\<close>

definition init_state :: "(string \<times> string) list option \<Rightarrow> client" where
  "init_state file =
     \<lparr>logged_in = False, username = [], messages = 0, chat_sessions = [],
      user_store = load_users file, heap = (\<lambda>a. []), next_addr = 1, users_json = file\<rparr>"

subsection \<open>Authentication (lines 44 to 78)\<close>

datatype auth_choice = Login | SignUp

definition sign_up :: "string \<Rightarrow> string \<Rightarrow> string \<Rightarrow> client \<Rightarrow> notice list \<times> client" where
  "sign_up uname password hashed_password st =
     (if uname \<noteq> [] \<and> password \<noteq> [] then
        (if map_of (user_store st) uname \<noteq> None
         then ([Error ''Username already exists!''], st)
         else
           (let st1 = st\<lparr>user_store := dict_set uname hashed_password (user_store st)\<rparr>;
                st2 = save_users (user_store st1) st1
            in ([Success ''Account created! Logged in.''],
                st2\<lparr>logged_in := True, username := uname\<rparr>)))
      else ([Error ''Please enter a username and password.''], st))"

definition login :: "string \<Rightarrow> string \<Rightarrow> client \<Rightarrow> notice list \<times> client" where
  "login uname hashed_password st =
     (if map_of (user_store st) uname = Some hashed_password
      then ([Success ''Logged in successfully!''], st\<lparr>logged_in := True, username := uname\<rparr>)
      else ([Error ''Invalid credentials.''], st))"

definition logout :: "client \<Rightarrow> notice list \<times> client" where
  "logout st =
     (let st1 = st\<lparr>logged_in := False, username := []\<rparr>;
          (a, st2) = new_list [] st1
      in ([Warning ''You have logged out.''], st2\<lparr>messages := a\<rparr>))"

text \<open>
  The sidebar block. \<open>hash_password\<close> is SHA-256 in hexadecimal, taken from hashlib.
  Only one button is drawn in a run (Sign Up, Login or Logout, by the state and the radio
  choice); \<open>clicked\<close> says whether it was pressed.
\<close>

definition auth_block :: "(string \<Rightarrow> string) \<Rightarrow> auth_choice \<Rightarrow> string \<Rightarrow> string \<Rightarrow> bool
    \<Rightarrow> client \<Rightarrow> notice list \<times> client" where
  "auth_block hash_password choice uname password clicked st =
     (if \<not> logged_in st then
        (let hashed_password = hash_password password in
         case choice of
           SignUp \<Rightarrow> if clicked then sign_up uname password hashed_password st else ([], st)
         | Login \<Rightarrow> if clicked then login uname hashed_password st else ([], st))
      else
        (let welcome = Success (''Welcome, '' @ username st @ ''!'') in
         if clicked then (case logout st of (ns, st') \<Rightarrow> (welcome # ns, st'))
         else ([welcome], st)))"

text \<open>Line 81: the upload, search and chat widgets are drawn only when logged in.\<close>

definition ui_shown :: "client \<Rightarrow> bool" where
  "ui_shown st = logged_in st"

subsection \<open>Chat and chat sessions (lines 108 to 138)\<close>

definition append_message :: "message \<Rightarrow> client \<Rightarrow> client" where
  "append_message m st = st\<lparr>heap := (heap st)(messages st := heap st (messages st) @ [m])\<rparr>"

text \<open>What \<open>requests.get\<close> gives back for the search: a status code with the \<open>answer\<close>
  field of the JSON body when it has one, or an exception that ends the run.\<close>

datatype reply = Reply nat "string option" | RequestRaises string

definition send_click :: "string \<Rightarrow> reply \<Rightarrow> client \<Rightarrow> client" where
  "send_click user_input rep st =
     (if user_input \<noteq> [] then
        (let st1 = append_message (''You'', user_input) st in
         case rep of
           RequestRaises e \<Rightarrow> st1
         | Reply status answer_field \<Rightarrow>
             (let answer =
                (if status = 200
                 then (case answer_field of Some a \<Rightarrow> a | None \<Rightarrow> ''Error fetching response'')
                 else ''Error fetching response'')
              in append_message (''Bot'', answer) st1))
      else st)"

definition save_chat :: "client \<Rightarrow> notice list \<times> client" where
  "save_chat st =
     (let session_name = ''Session '' @ str_nat (length (chat_sessions st) + 1);
          (a, st1) = new_list (heap st (messages st)) st
      in ([Success (''Chat saved as: '' @ session_name)],
          st1\<lparr>chat_sessions := dict_set session_name a (chat_sessions st1)\<rparr>))"

definition load_chat :: "string \<Rightarrow> client \<Rightarrow> notice list \<times> client" where
  "load_chat selected_session st =
     (if selected_session \<noteq> [] then
        (case map_of (chat_sessions st) selected_session of
           None \<Rightarrow> ([], st)
         | Some s \<Rightarrow>
             (let (a, st1) = new_list (heap st s) st
              in ([Success (''Loaded: '' @ selected_session)], st1\<lparr>messages := a\<rparr>)))
      else ([], st))"

definition clear_chat :: "client \<Rightarrow> notice list \<times> client" where
  "clear_chat st =
     (let (a, st1) = new_list [] st
      in ([Warning ''Chat history cleared!''], st1\<lparr>messages := a\<rparr>))"

text \<open>What the user does in the chat area, one action per run of the script.\<close>

datatype event = Send string reply | Save | Load string | Clear

fun step :: "event \<Rightarrow> client \<Rightarrow> client" where
  "step (Send user_input rep) st = send_click user_input rep st"
| "step Save st = snd (save_chat st)"
| "step (Load selected_session) st = snd (load_chat selected_session st)"
| "step Clear st = snd (clear_chat st)"

definition run :: "event list \<Rightarrow> client \<Rightarrow> client" where
  "run es st = fold step es st"

text \<open>What the session state holds, read through the references.\<close>

definition current_messages :: "client \<Rightarrow> message list" where
  "current_messages st = heap st (messages st)"

definition saved_sessions :: "client \<Rightarrow> (string \<times> message list) list" where
  "saved_sessions st = map (\<lambda>(name, a). (name, heap st a)) (chat_sessions st)"

text \<open>
  The shape of the references that the script maintains: every list object in use has
  been allocated, and no saved session is the very object \<open>messages\<close> refers to
  (sessions are stored and loaded through \<open>list(...)\<close>).
\<close>

definition well_formed :: "client \<Rightarrow> bool" where
  "well_formed st \<longleftrightarrow>
     messages st < next_addr st \<and>
     list_all (\<lambda>(name, a). a < next_addr st \<and> a \<noteq> messages st) (chat_sessions st)"

section \<open>Concrete inputs\<close>

text \<open>
  A world in which every call returns: the text loader yields the file's bytes as one
  document, the splitter passes documents through, the index appends, and the chain
  answers every query with the same text.
\<close>

definition sample_world :: world where
  "sample_world =
     \<lparr>path_join = (\<lambda>a b. a @ ''/'' @ b),
      os_write = (\<lambda>p d. Written),
      pdf_load = (\<lambda>fs p. case fs p of None \<Rightarrow> Inl ''File path is not a valid file''
                                    | Some d \<Rightarrow> Inr [Document d]),
      text_load = (\<lambda>fs p. case fs p of None \<Rightarrow> Inl ''Error loading file''
                                     | Some d \<Rightarrow> Inr [Document d]),
      split_documents = (\<lambda>chunk_size chunk_overlap docs. Inr docs),
      add_documents = (\<lambda>db chunks. (None, db @ chunks)),
      persist = (\<lambda>db. None),
      qa_invoke = (\<lambda>db q. Inr [(''query'', q), (''result'', ''an answer'')]),
      similarity_search = (\<lambda>db q. Inr (take 4 db)),
      get_relevant_documents = (\<lambda>db q. Inr (take 4 db)),
      qa_run = (\<lambda>db q. Inr ''an answer'')\<rparr>"

definition empty_backend :: backend where
  "empty_backend = \<lparr>files = Map.empty, vector_db = []\<rparr>"

definition indexed_backend :: backend where
  "indexed_backend = \<lparr>files = Map.empty, vector_db = [Document ''first chunk'']\<rparr>"

text \<open>A world in which the disk, the text loader and the language model fail.\<close>

definition failing_world :: world where
  "failing_world =
     sample_world\<lparr>os_write := (\<lambda>p d. OpenRaises ''No such file or directory''),
                  text_load := (\<lambda>fs p. Inl ''Error loading file''),
                  qa_invoke := (\<lambda>db q. Inl ''Connection error.''),
                  qa_run := (\<lambda>db q. Inl ''Connection error.'')\<rparr>"

text \<open>A stand-in for the digest, and a client whose users.json holds one account.\<close>

definition sample_hash :: "string \<Rightarrow> string" where
  "sample_hash password = ''sha256:'' @ password"

definition fresh_client :: client where
  "fresh_client = init_state (Some [(''alice'', sample_hash ''secret'')])"

text \<open>The same client after alice has logged in and asked one question; nothing is saved
  yet.\<close>

definition chatting_client :: client where
  "chatting_client =
     run [Send ''hi'' (Reply 200 (Some ''hello''))]
       (snd (auth_block sample_hash Login ''alice'' ''secret'' True fresh_client))"

text \<open>The same client after alice has logged in, asked one question and saved the chat.\<close>

definition busy_client :: client where
  "busy_client =
     run [Send ''hi'' (Reply 200 (Some ''hello'')), Save]
       (snd (auth_block sample_hash Login ''alice'' ''secret'' True fresh_client))"

section \<open>Properties of the backend\<close>

lemmas backend_defs = upload_file_def upload_body_def index_documents_def write_file_def
  loader_load_def JSONResponse_def ok_def field_def endswith_def UPLOAD_FOLDER_def

subsection \<open>Upload\<close>



text \<open>After an upload whose write returned, the store holds the uploaded bytes under the
  joined path, whatever the extension and whatever happens later in the handler.\<close>

lemma files_after_upload:
  "os_write w (path_join w UPLOAD_FOLDER (filename file)) (data file) = Written \<Longrightarrow>
   files (snd (upload_file w file b)) (path_join w UPLOAD_FOLDER (filename file)) = Some (data file)"
  by (auto simp: upload_file_def upload_body_def write_file_def index_documents_def Let_def
           split: sum.splits prod.splits option.splits)

text \<open>An upload with another extension never reaches the index.\<close>

lemma unsupported_upload_keeps_index:
  "\<not> endswith (filename file) ''.pdf'' \<Longrightarrow> \<not> endswith (filename file) ''.txt'' \<Longrightarrow>
   vector_db (snd (upload_file w file b)) = vector_db b"
  by (auto simp: upload_file_def upload_body_def write_file_def Let_def
           split: write_result.splits)

text \<open>
  C1. The claim: an upload whose filename ends with neither ".pdf" nor ".txt" is answered
  with the unsupported-format error (status 400), writes nothing to the document store
  and leaves the vector index alone. The handler saves the file before it looks at the
  extension: the upload of notes.exe with the bytes abc into an empty store is answered
  with status 400, the index is untouched, and the store now holds the file.
\<close>

theorem upload_unsupported_stores_file:
  "upload_file sample_world \<lparr>filename = ''notes.exe'', data = ''abc''\<rparr> empty_backend =
     (JSONResponse [(''error'', JStr ''Unsupported file format. Upload a .pdf or .txt file.'')] 400,
      \<lparr>files = [''./document_store/notes.exe'' \<mapsto> ''abc''], vector_db = []\<rparr>)"
  by (simp add: backend_defs sample_world_def empty_backend_def)




text \<open>
  C7. Of two uploads with the same filename the later one wins: when its write returns,
  the file stored under that name holds exactly the bytes of the later upload, whatever
  the first upload did and whatever the rest of either handler run does.
\<close>

theorem upload_last_write_wins:
  assumes "filename first = filename second"
    and "os_write w2 (path_join w2 UPLOAD_FOLDER (filename second)) (data second) = Written"
  shows "files (snd (upload_file w2 second (snd (upload_file w1 first b))))
           (path_join w2 UPLOAD_FOLDER (filename first)) = Some (data second)"
  using files_after_upload [OF assms(2)] assms(1) by simp

theorem upload_last_write_wins_witness:
  "files (snd (upload_file sample_world \<lparr>filename = ''notes.txt'', data = ''new''\<rparr>
            (snd (upload_file sample_world \<lparr>filename = ''notes.txt'', data = ''old''\<rparr>
               empty_backend))))
     ''./document_store/notes.txt'' = Some ''new'' \<and>
   files (snd (upload_file sample_world \<lparr>filename = ''notes.txt'', data = ''old''\<rparr> empty_backend))
     ''./document_store/notes.txt'' = Some ''old''"
  using upload_last_write_wins [of "\<lparr>filename = ''notes.txt'', data = ''old''\<rparr>"
      "\<lparr>filename = ''notes.txt'', data = ''new''\<rparr>" sample_world sample_world empty_backend]
  by (simp add: sample_world_def UPLOAD_FOLDER_def upload_file_def upload_body_def
        write_file_def index_documents_def loader_load_def endswith_def empty_backend_def)

subsection \<open>Search\<close>

text \<open>
  C5. Both definitions of the search endpoint answer a request whose \<open>try\<close> block returns
  with status 200 and a body holding retrieved_chunks (the texts of the retrieved
  documents) and answer (the generated text), and a request whose \<open>try\<close> block raises with
  status 500 and a body holding the key error.
\<close>

theorem search_query_responses:
  "(\<forall>r. search_body_first w b query = Inr r \<longrightarrow>
       search_query_first w b query = r \<and> status_code r = 200 \<and>
       (\<exists>docs result answer.
          similarity_search w (vector_db b) query = Inr docs \<and>
          qa_invoke w (vector_db b) query = Inr result \<and>
          map_of result ''result'' = Some answer \<and>
          field ''retrieved_chunks'' r = Some (JArr (map (\<lambda>doc. JStr (page_content doc)) docs)) \<and>
          field ''answer'' r = Some (JStr answer))) \<and>
   (\<forall>e. search_body_first w b query = Inl e \<longrightarrow>
       status_code (search_query_first w b query) = 500 \<and>
       field ''error'' (search_query_first w b query) =
         Some (JStr (''Error processing your request: '' @ e))) \<and>
   (\<forall>r. search_body_second w b query = Inr r \<longrightarrow>
       search_query_second w b query = r \<and> status_code r = 200 \<and>
       (\<exists>docs answer.
          get_relevant_documents w (vector_db b) query = Inr docs \<and>
          qa_run w (vector_db b) query = Inr answer \<and>
          field ''retrieved_chunks'' r = Some (JArr (map (\<lambda>doc. JStr (page_content doc)) docs)) \<and>
          field ''answer'' r = Some (JStr answer))) \<and>
   (\<forall>e. search_body_second w b query = Inl e \<longrightarrow>
       status_code (search_query_second w b query) = 500 \<and>
       field ''error'' (search_query_second w b query) =
         Some (JStr (''Error processing your request: '' @ e)))"
proof (intro conjI allI impI)
  fix r assume h: "search_body_first w b query = Inr r"
  then show "search_query_first w b query = r" by (simp add: search_query_first_def)
  from h show "status_code r = 200"
    by (auto simp: search_body_first_def ok_def split: sum.splits)
  from h show "\<exists>docs result answer.
          similarity_search w (vector_db b) query = Inr docs \<and>
          qa_invoke w (vector_db b) query = Inr result \<and>
          map_of result ''result'' = Some answer \<and>
          field ''retrieved_chunks'' r = Some (JArr (map (\<lambda>doc. JStr (page_content doc)) docs)) \<and>
          field ''answer'' r = Some (JStr answer)"
    by (auto simp: search_body_first_def getitem_def ok_def field_def chunks_of_def
             split: sum.splits option.splits)
next
  fix e assume h: "search_body_first w b query = Inl e"
  then show "status_code (search_query_first w b query) = 500"
    and "field ''error'' (search_query_first w b query) =
         Some (JStr (''Error processing your request: '' @ e))"
    by (simp_all add: search_query_first_def search_failed_def JSONResponse_def field_def)
next
  fix r assume h: "search_body_second w b query = Inr r"
  then show "search_query_second w b query = r" by (simp add: search_query_second_def)
  from h show "status_code r = 200"
    by (auto simp: search_body_second_def ok_def split: sum.splits)
  from h show "\<exists>docs answer.
          get_relevant_documents w (vector_db b) query = Inr docs \<and>
          qa_run w (vector_db b) query = Inr answer \<and>
          field ''retrieved_chunks'' r = Some (JArr (map (\<lambda>doc. JStr (page_content doc)) docs)) \<and>
          field ''answer'' r = Some (JStr answer)"
    by (auto simp: search_body_second_def ok_def field_def chunks_of_def split: sum.splits)
next
  fix e assume h: "search_body_second w b query = Inl e"
  then show "status_code (search_query_second w b query) = 500"
    and "field ''error'' (search_query_second w b query) =
         Some (JStr (''Error processing your request: '' @ e))"
    by (simp_all add: search_query_second_def search_failed_def JSONResponse_def field_def)
qed

text \<open>Both definitions on an index of one chunk: once with a model that answers, once with
  a model that cannot be reached.\<close>

theorem search_query_responses_witness:
  "search_query_first sample_world indexed_backend ''what?'' =
     ok [(''retrieved_chunks'', JArr [JStr ''first chunk'']), (''answer'', JStr ''an answer'')] \<and>
   search_query_second sample_world indexed_backend ''what?'' =
     ok [(''retrieved_chunks'', JArr [JStr ''first chunk'']), (''answer'', JStr ''an answer'')] \<and>
   status_code (search_query_first failing_world indexed_backend ''what?'') = 500 \<and>
   field ''error'' (search_query_first failing_world indexed_backend ''what?'') =
     Some (JStr ''Error processing your request: Connection error.'') \<and>
   status_code (search_query_second failing_world indexed_backend ''what?'') = 500 \<and>
   field ''error'' (search_query_second failing_world indexed_backend ''what?'') =
     Some (JStr ''Error processing your request: Connection error.'')"
proof -
  let ?found = "ok [(''retrieved_chunks'', JArr [JStr ''first chunk'']),
                    (''answer'', JStr ''an answer'')]"
  have returns: "search_body_first sample_world indexed_backend ''what?'' = Inr ?found"
      "search_body_second sample_world indexed_backend ''what?'' = Inr ?found"
    by (simp_all add: search_body_first_def search_body_second_def getitem_def chunks_of_def
          sample_world_def indexed_backend_def)
  have raises: "search_body_first failing_world indexed_backend ''what?'' = Inl ''Connection error.''"
      "search_body_second failing_world indexed_backend ''what?'' = Inl ''Connection error.''"
    by (simp_all add: search_body_first_def search_body_second_def failing_world_def
          sample_world_def indexed_backend_def)
  show ?thesis
    using returns raises
      search_query_responses [of sample_world indexed_backend "''what?''"]
      search_query_responses [of failing_world indexed_backend "''what?''"]
    by simp
qed

section \<open>Properties of the client\<close>

subsection \<open>Dicts and session names\<close>

lemma map_of_dict_set: "map_of (dict_set k v d) = (map_of d)(k \<mapsto> v)"
  by (induction d) (auto simp: fun_eq_iff)

lemma set_dict_set: "set (dict_set k v d) \<subseteq> insert (k, v) (set d)"
  by (induction d) (auto split: if_splits)

lemma keys_dict_set: "fst ` set (dict_set k v d) = insert k (fst ` set d)"
  by (simp add: dom_map_of_conv_image_fst [symmetric] map_of_dict_set)

lemma distinct_dict_set:
  "distinct (map fst d) \<Longrightarrow> distinct (map fst (dict_set k v d))"
proof (induction d)
  case Nil
  then show ?case by simp
next
  case (Cons kv d)
  obtain k' v' where kv: "kv = (k', v')" by (cases kv)
  show ?case
  proof (cases "k' = k")
    case True
    with Cons.prems kv show ?thesis by simp
  next
    case False
    have "k' \<notin> fst ` set (dict_set k v d)"
      using Cons.prems kv False by (simp add: keys_dict_set)
    with Cons kv False show ?thesis by simp
  qed
qed

lemma str_nat_not_Nil: "str_nat n \<noteq> []"
  by (subst str_nat.simps) simp

lemma digit_char_one: "n < 10 \<Longrightarrow> digit_char n = CHR ''1'' \<longleftrightarrow> n = 1"
proof -
  assume "n < 10"
  then consider "n = 0" | "n = 1" | "n = 2" | "n = 3" | "n = 4" | "n = 5" | "n = 6"
    | "n = 7" | "n = 8" | "n = 9"
    by (auto simp: eval_nat_numeral less_Suc_eq)
  then show ?thesis by cases (simp_all add: digit_char_def)
qed

text \<open>Only the first save is named "Session 1".\<close>

lemma str_nat_one: "str_nat n = ''1'' \<longleftrightarrow> n = 1"
proof (cases "n < 10")
  case True
  then show ?thesis by (subst str_nat.simps) (simp add: digit_char_one)
next
  case False
  have "length (str_nat n) = Suc (length (str_nat (n div 10)))"
    using False by (subst str_nat.simps) simp
  moreover have "0 < length (str_nat (n div 10))" using str_nat_not_Nil by blast
  ultimately have "length (str_nat n) \<noteq> 1" by linarith
  then have "str_nat n \<noteq> ''1''" by auto
  with False show ?thesis by auto
qed

subsection \<open>The references stay well formed\<close>

lemma well_formed_session:
  "well_formed st \<Longrightarrow> map_of (chat_sessions st) name = Some a \<Longrightarrow>
     a < next_addr st \<and> a \<noteq> messages st"
  by (auto simp: well_formed_def list_all_iff dest!: map_of_SomeD)

lemma well_formed_init: "well_formed (init_state file)"
  by (simp add: well_formed_def init_state_def)

lemma well_formed_send: "well_formed st \<Longrightarrow> well_formed (send_click user_input rep st)"
  by (auto simp: well_formed_def send_click_def append_message_def Let_def split: reply.splits)

lemma well_formed_save: "well_formed st \<Longrightarrow> well_formed (snd (save_chat st))"
proof -
  assume wf: "well_formed st"
  let ?name = "''Session '' @ str_nat (length (chat_sessions st) + 1)"
  have cs: "chat_sessions (snd (save_chat st)) = dict_set ?name (next_addr st) (chat_sessions st)"
    and nx: "next_addr (snd (save_chat st)) = Suc (next_addr st)"
    and ms: "messages (snd (save_chat st)) = messages st"
    by (simp_all add: save_chat_def new_list_def Let_def)
  have "\<forall>(name, a) \<in> set (dict_set ?name (next_addr st) (chat_sessions st)).
          a < Suc (next_addr st) \<and> a \<noteq> messages st"
    using wf set_dict_set [of ?name "next_addr st" "chat_sessions st"]
    by (fastforce simp: well_formed_def list_all_iff)
  with wf show ?thesis
    by (simp add: well_formed_def list_all_iff cs nx ms)
qed

lemma well_formed_load: "well_formed st \<Longrightarrow> well_formed (snd (load_chat selected_session st))"
  by (auto simp: well_formed_def load_chat_def new_list_def Let_def list_all_iff
           split: option.splits)

lemma well_formed_clear: "well_formed st \<Longrightarrow> well_formed (snd (clear_chat st))"
  by (auto simp: well_formed_def clear_chat_def new_list_def Let_def list_all_iff)

lemma well_formed_step: "well_formed st \<Longrightarrow> well_formed (step e st)"
  by (cases e) (simp_all add: well_formed_send well_formed_save well_formed_load well_formed_clear)

lemma well_formed_auth:
  "well_formed st \<Longrightarrow> well_formed (snd (auth_block hash_password choice uname password clicked st))"
  by (auto simp: well_formed_def auth_block_def sign_up_def login_def logout_def save_users_def
        new_list_def Let_def list_all_iff split: auth_choice.splits)

subsection \<open>Authentication\<close>

text \<open>
  C4. While nobody is logged in: a sign-up with a username that is already in the store is
  refused with an error and changes nothing; a login whose hashed password is not the
  stored hash of that username is refused and changes nothing; a login with a stored
  username and the password whose hash is the stored one logs that user in, which opens
  the upload and search widgets. No action of the sidebar ever makes a username occur
  twice in the store.
\<close>

theorem auth_rules:
  "(\<not> logged_in st \<longrightarrow>
      (map_of (user_store st) uname \<noteq> None \<longrightarrow>
         (\<exists>e. auth_block H SignUp uname password True st = ([Error e], st))) \<and>
      (map_of (user_store st) uname \<noteq> Some (H password) \<longrightarrow>
         auth_block H Login uname password True st = ([Error ''Invalid credentials.''], st)) \<and>
      (map_of (user_store st) uname = Some (H password) \<longrightarrow>
         fst (auth_block H Login uname password True st) = [Success ''Logged in successfully!''] \<and>
         snd (auth_block H Login uname password True st) = st\<lparr>logged_in := True, username := uname\<rparr> \<and>
         ui_shown (snd (auth_block H Login uname password True st)))) \<and>
   (distinct (map fst (user_store st)) \<longrightarrow>
      distinct (map fst (user_store (snd (auth_block H choice uname password clicked st)))))"
proof (intro conjI impI)
  assume "\<not> logged_in st" and "map_of (user_store st) uname \<noteq> None"
  then show "\<exists>e. auth_block H SignUp uname password True st = ([Error e], st)"
    by (simp add: auth_block_def sign_up_def)
next
  assume "\<not> logged_in st" and "map_of (user_store st) uname \<noteq> Some (H password)"
  then show "auth_block H Login uname password True st = ([Error ''Invalid credentials.''], st)"
    by (simp add: auth_block_def login_def)
next
  assume h: "\<not> logged_in st" "map_of (user_store st) uname = Some (H password)"
  then show "fst (auth_block H Login uname password True st) = [Success ''Logged in successfully!'']"
    by (simp add: auth_block_def login_def)
  from h show "snd (auth_block H Login uname password True st) = st\<lparr>logged_in := True, username := uname\<rparr>"
    by (simp add: auth_block_def login_def)
  from h show "ui_shown (snd (auth_block H Login uname password True st))"
    by (simp add: auth_block_def login_def ui_shown_def)
next
  assume "distinct (map fst (user_store st))"
  then show "distinct (map fst (user_store (snd (auth_block H choice uname password clicked st))))"
    by (auto simp: auth_block_def sign_up_def login_def logout_def save_users_def new_list_def
          Let_def distinct_dict_set split: auth_choice.splits)
qed

text \<open>With the account of alice on file: a second sign-up as alice, a login with a wrong
  password, a login with the right one, and a sign-up as bob.\<close>

theorem auth_rules_witness:
  "\<not> logged_in fresh_client \<and>
   map_of (user_store fresh_client) ''alice'' \<noteq> None \<and>
   (\<exists>e. auth_block sample_hash SignUp ''alice'' ''guess'' True fresh_client = ([Error e], fresh_client)) \<and>
   map_of (user_store fresh_client) ''alice'' \<noteq> Some (sample_hash ''guess'') \<and>
   auth_block sample_hash Login ''alice'' ''guess'' True fresh_client =
     ([Error ''Invalid credentials.''], fresh_client) \<and>
   map_of (user_store fresh_client) ''alice'' = Some (sample_hash ''secret'') \<and>
   ui_shown (snd (auth_block sample_hash Login ''alice'' ''secret'' True fresh_client)) \<and>
   distinct (map fst (user_store fresh_client)) \<and>
   distinct (map fst (user_store (snd (auth_block sample_hash SignUp ''bob'' ''pw'' True fresh_client))))"
proof -
  have out: "\<not> logged_in fresh_client"
    and known: "map_of (user_store fresh_client) ''alice'' \<noteq> None"
    and wrong: "map_of (user_store fresh_client) ''alice'' \<noteq> Some (sample_hash ''guess'')"
    and right: "map_of (user_store fresh_client) ''alice'' = Some (sample_hash ''secret'')"
    and uniq: "distinct (map fst (user_store fresh_client))"
    by (simp_all add: fresh_client_def init_state_def load_users_def sample_hash_def)
  show ?thesis
    using out known wrong right uniq
      auth_rules [of fresh_client "''alice''" sample_hash "''guess''" SignUp True]
      auth_rules [of fresh_client "''alice''" sample_hash "''secret''" SignUp True]
      auth_rules [of fresh_client "''bob''" sample_hash "''pw''" SignUp True]
    by blast
qed

text \<open>
  C9. A sign-up with an empty username or an empty password shows an error and changes
  nothing: no account is created, the user store in memory and the file users.json stay
  as they were, and nobody is logged in.
\<close>

theorem sign_up_empty_rejected:
  "\<not> logged_in st \<Longrightarrow> uname = [] \<or> password = [] \<Longrightarrow>
     auth_block H SignUp uname password True st =
       ([Error ''Please enter a username and password.''], st)"
  by (auto simp: auth_block_def sign_up_def)

theorem sign_up_empty_rejected_witness:
  "\<not> logged_in fresh_client \<and>
   auth_block sample_hash SignUp ''bob'' [] True fresh_client =
     ([Error ''Please enter a username and password.''], fresh_client) \<and>
   auth_block sample_hash SignUp [] ''pw'' True fresh_client =
     ([Error ''Please enter a username and password.''], fresh_client) \<and>
   user_store fresh_client = [(''alice'', ''sha256:secret'')] \<and>
   users_json fresh_client = Some [(''alice'', ''sha256:secret'')]"
  using sign_up_empty_rejected [of fresh_client "''bob''" "[]" sample_hash]
    sign_up_empty_rejected [of fresh_client "[]" "''pw''" sample_hash]
  by (simp add: fresh_client_def init_state_def load_users_def sample_hash_def)

text \<open>The state that the client is defined to reach, written out.\<close>

lemmas client_defs = auth_block_def sign_up_def login_def logout_def save_users_def new_list_def
  init_state_def load_users_def fresh_client_def sample_hash_def ui_shown_def

lemma busy_client_eq:
  "busy_client = \<lparr>logged_in = True, username = ''alice'', messages = 0,
      chat_sessions = [(''Session 1'', 1)],
      user_store = [(''alice'', ''sha256:secret'')],
      heap = ((\<lambda>a. [])(0 := [(''You'', ''hi''), (''Bot'', ''hello'')]))
               (1 := [(''You'', ''hi''), (''Bot'', ''hello'')]),
      next_addr = 2, users_json = Some [(''alice'', ''sha256:secret'')]\<rparr>"
  by (simp add: busy_client_def run_def client_defs send_click_def append_message_def
        save_chat_def Let_def str_nat_one [THEN iffD2])

lemma saved_sessions_new_list:
  "well_formed st \<Longrightarrow>
     map (\<lambda>(name, a). (name, ((heap st)(next_addr st := xs)) a)) (chat_sessions st) =
     map (\<lambda>(name, a). (name, heap st a)) (chat_sessions st)"
  by (auto simp: well_formed_def list_all_iff)

text \<open>
  C10. Logging out sets logged_in to False, empties the username and gives the session an
  empty message list; the saved chat sessions, by name and by content, the user store and
  the file users.json are as before.
\<close>

theorem logout_frame:
  assumes "logged_in st" and "well_formed st"
  shows "\<not> logged_in (snd (auth_block H choice uname password True st)) \<and>
         username (snd (auth_block H choice uname password True st)) = [] \<and>
         current_messages (snd (auth_block H choice uname password True st)) = [] \<and>
         chat_sessions (snd (auth_block H choice uname password True st)) = chat_sessions st \<and>
         saved_sessions (snd (auth_block H choice uname password True st)) = saved_sessions st \<and>
         user_store (snd (auth_block H choice uname password True st)) = user_store st \<and>
         users_json (snd (auth_block H choice uname password True st)) = users_json st"
proof -
  have eq: "snd (auth_block H choice uname password True st) =
      st\<lparr>logged_in := False, username := [], messages := next_addr st,
         heap := (heap st)(next_addr st := []), next_addr := Suc (next_addr st)\<rparr>"
    using assms(1) by (simp add: auth_block_def logout_def new_list_def)
  show ?thesis
    unfolding eq
    using saved_sessions_new_list [OF assms(2), of "[]"]
    by (simp add: current_messages_def saved_sessions_def)
qed

theorem logout_frame_witness:
  "logged_in busy_client \<and> well_formed busy_client \<and>
   saved_sessions busy_client = [(''Session 1'', [(''You'', ''hi''), (''Bot'', ''hello'')])] \<and>
   current_messages busy_client = [(''You'', ''hi''), (''Bot'', ''hello'')] \<and>
   \<not> logged_in (snd (auth_block sample_hash Login [] [] True busy_client)) \<and>
   current_messages (snd (auth_block sample_hash Login [] [] True busy_client)) = [] \<and>
   saved_sessions (snd (auth_block sample_hash Login [] [] True busy_client)) =
     [(''Session 1'', [(''You'', ''hi''), (''Bot'', ''hello'')])]"
proof -
  have li: "logged_in busy_client" and wf: "well_formed busy_client"
    and ss: "saved_sessions busy_client = [(''Session 1'', [(''You'', ''hi''), (''Bot'', ''hello'')])]"
    and cm: "current_messages busy_client = [(''You'', ''hi''), (''Bot'', ''hello'')]"
    by (simp_all add: busy_client_eq well_formed_def saved_sessions_def current_messages_def)
  show ?thesis
    using li wf ss cm logout_frame [OF li wf, of sample_hash Login "[]" "[]"] by simp
qed

subsection \<open>Saved chat sessions\<close>

text \<open>One action in the chat area leaves a saved "Session 1" and its contents alone.\<close>

lemma step_keeps_session:
  assumes wf: "well_formed st"
    and a: "map_of (chat_sessions st) ''Session 1'' = Some a"
    and xs: "heap st a = xs"
  shows "map_of (chat_sessions (step e st)) ''Session 1'' = Some a \<and> heap (step e st) a = xs"
proof -
  have lt: "a < next_addr st" and ne: "a \<noteq> messages st"
    using well_formed_session [OF wf a] by simp_all
  show ?thesis
  proof (cases e)
    case (Send user_input rep)
    with a xs ne show ?thesis
      by (auto simp: send_click_def append_message_def Let_def split: reply.splits)
  next
    case Save
    have "chat_sessions st \<noteq> []" using a by auto
    then have "length (chat_sessions st) + 1 \<noteq> 1" by simp
    then have "''Session '' @ str_nat (length (chat_sessions st) + 1) \<noteq> ''Session 1''"
      using str_nat_one [of "length (chat_sessions st) + 1"] by simp
    with Save a xs lt show ?thesis
      by (simp add: save_chat_def new_list_def Let_def map_of_dict_set)
  next
    case (Load selected_session)
    with a xs lt show ?thesis
      by (auto simp: load_chat_def new_list_def Let_def split: option.splits)
  next
    case Clear
    with a xs lt show ?thesis
      by (auto simp: clear_chat_def new_list_def Let_def)
  qed
qed

lemma run_keeps_session:
  "well_formed st \<Longrightarrow> map_of (chat_sessions st) ''Session 1'' = Some a \<Longrightarrow> heap st a = xs \<Longrightarrow>
     map_of (chat_sessions (run es st)) ''Session 1'' = Some a \<and> heap (run es st) a = xs"
proof (induction es arbitrary: st)
  case Nil
  then show ?case by (simp add: run_def)
next
  case (Cons e es)
  have "well_formed (step e st)" using Cons.prems(1) by (rule well_formed_step)
  moreover have "map_of (chat_sessions (step e st)) ''Session 1'' = Some a \<and> heap (step e st) a = xs"
    using Cons.prems by (rule step_keeps_session)
  ultimately have "map_of (chat_sessions (run es (step e st))) ''Session 1'' = Some a \<and>
      heap (run es (step e st)) a = xs"
    using Cons.IH by blast
  then show ?case by (simp add: run_def)
qed

lemma first_save:
  assumes "well_formed st" and "chat_sessions st = []"
  shows "chat_sessions (snd (save_chat st)) = [(''Session 1'', next_addr st)]"
    and "heap (snd (save_chat st)) (next_addr st) = current_messages st"
  using assms
  by (simp_all add: save_chat_def new_list_def Let_def current_messages_def str_nat_one [THEN iffD2])

lemma load_reads_session:
  "map_of (chat_sessions st) name = Some a \<Longrightarrow> name \<noteq> [] \<Longrightarrow>
     current_messages (snd (load_chat name st)) = heap st a"
  by (simp add: load_chat_def new_list_def Let_def current_messages_def)

text \<open>
  C8. The first save stores the chat under the name "Session 1". Whatever is done in the
  chat area afterwards (questions sent and answered, the chat cleared, further saves and
  loads), loading "Session 1" makes the current messages exactly those that were current
  when it was saved.
\<close>

theorem saved_session_restored:
  assumes "well_formed st" and "chat_sessions st = []"
  shows "map fst (chat_sessions (snd (save_chat st))) = [''Session 1''] \<and>
         current_messages (snd (load_chat ''Session 1'' (run es (snd (save_chat st))))) =
           current_messages st"
proof -
  let ?st1 = "snd (save_chat st)"
  have wf1: "well_formed ?st1" using assms(1) by (rule well_formed_save)
  have cs: "chat_sessions ?st1 = [(''Session 1'', next_addr st)]"
    and hp: "heap ?st1 (next_addr st) = current_messages st"
    using first_save [OF assms] by simp_all
  have "map_of (chat_sessions ?st1) ''Session 1'' = Some (next_addr st)"
    by (simp add: cs)
  from run_keeps_session [OF wf1 this hp]
  have "map_of (chat_sessions (run es ?st1)) ''Session 1'' = Some (next_addr st)"
    and "heap (run es ?st1) (next_addr st) = current_messages st"
    by simp_all
  then have "current_messages (snd (load_chat ''Session 1'' (run es ?st1))) = current_messages st"
    using load_reads_session [of "run es ?st1" "''Session 1''" "next_addr st"] by simp
  with cs show ?thesis by simp
qed

text \<open>
  A chat of two messages is saved and a second question is asked and answered, so that
  four messages are current; loading "Session 1" brings back the two that were saved.
\<close>

theorem saved_session_restored_witness:
  "well_formed chatting_client \<and> chat_sessions chatting_client = [] \<and>
   current_messages chatting_client = [(''You'', ''hi''), (''Bot'', ''hello'')] \<and>
   current_messages (run [Send ''more?'' (Reply 200 (Some ''yes''))]
                       (snd (save_chat chatting_client))) =
     [(''You'', ''hi''), (''Bot'', ''hello''), (''You'', ''more?''), (''Bot'', ''yes'')] \<and>
   map fst (chat_sessions (snd (save_chat chatting_client))) = [''Session 1''] \<and>
   current_messages (snd (load_chat ''Session 1''
      (run [Send ''more?'' (Reply 200 (Some ''yes''))] (snd (save_chat chatting_client))))) =
     [(''You'', ''hi''), (''Bot'', ''hello'')]"
proof -
  have st: "chatting_client = \<lparr>logged_in = True, username = ''alice'', messages = 0,
      chat_sessions = [], user_store = [(''alice'', ''sha256:secret'')],
      heap = (\<lambda>a. [])(0 := [(''You'', ''hi''), (''Bot'', ''hello'')]),
      next_addr = 1, users_json = Some [(''alice'', ''sha256:secret'')]\<rparr>"
    by (simp add: chatting_client_def run_def client_defs send_click_def append_message_def
          Let_def)
  have wf: "well_formed chatting_client" and none: "chat_sessions chatting_client = []"
    and before: "current_messages chatting_client = [(''You'', ''hi''), (''Bot'', ''hello'')]"
    by (simp_all add: st well_formed_def current_messages_def)
  have later: "current_messages (run [Send ''more?'' (Reply 200 (Some ''yes''))]
                       (snd (save_chat chatting_client))) =
     [(''You'', ''hi''), (''Bot'', ''hello''), (''You'', ''more?''), (''Bot'', ''yes'')]"
    by (simp add: st run_def save_chat_def new_list_def send_click_def append_message_def
          current_messages_def Let_def)
  show ?thesis
    using wf none before later
      saved_session_restored [OF wf none, of "[Send ''more?'' (Reply 200 (Some ''yes''))]"]
    by simp
qed

end
